theory Spec2Isabelle
  imports Complex_Main "HOL-Library.Word" "HOL-Library.Log_Nat" "HOL-Library.Signed_Division"
begin

section \<open>Go base types and the library functions the logger calls\<close>

text \<open>
  Go's \<open>int\<close> (on 64-bit targets) and \<open>time.Duration\<close> (an \<open>int64\<close> count of
  nanoseconds) are 64-bit words read as two's complement by \<open>sint\<close>; \<open>+\<close> wraps.
  A \<open>time.Time\<close> is its reading of the monotonic clock in nanoseconds. A \<open>float64\<close>
  is the rational number it denotes (no infinity or NaN arises in this program).
  Go strings and byte slices are lists of 8-bit characters.
\<close>

type_synonym go_int = "64 word"
type_synonym Duration = "64 word"
type_synonym Time = int

datatype error = AddrError string string | WriteError string

datatype panic = Panic string

subsection \<open>strconv.Itoa\<close>

definition digit :: "int \<Rightarrow> char" where
  "digit n = ''0123456789'' ! nat (n mod 10)"

function decimal :: "int \<Rightarrow> string" where
  "decimal n = (if n < 10 then [digit n] else decimal (n div 10) @ [digit (n mod 10)])"
  by pat_completeness auto
termination
  by (relation "measure nat") auto

declare decimal.simps [simp del]

definition Itoa :: "go_int \<Rightarrow> string" where
  "Itoa i = (if sint i < 0 then CHR ''-'' # decimal (- sint i) else decimal (sint i))"

subsection \<open>strings.Join\<close>

fun Join :: "string list \<Rightarrow> string \<Rightarrow> string" where
  "Join [] sep = []"
| "Join [a] sep = a"
| "Join (a # b # rest) sep = a @ sep @ Join (b # rest) sep"

subsection \<open>net.SplitHostPort\<close>

fun IndexByte :: "string \<Rightarrow> char \<Rightarrow> int" where
  "IndexByte [] c = - 1"
| "IndexByte (x # xs) c =
     (if x = c then 0 else (let i = IndexByte xs c in if i < 0 then - 1 else i + 1))"

definition LastIndexByte :: "string \<Rightarrow> char \<Rightarrow> int" where
  "LastIndexByte s c =
     (let i = IndexByte (rev s) c in if i < 0 then - 1 else int (length s) - 1 - i)"

definition missingPort :: string where
  "missingPort = ''missing port in address''"

definition tooManyColons :: string where
  "tooManyColons = ''too many colons in address''"

definition addrErr :: "string \<Rightarrow> string \<Rightarrow> string \<times> string \<times> error option" where
  "addrErr addr why = ('''', '''', Some (AddrError why addr))"

text \<open>
  The tail of \<open>SplitHostPort\<close>, after the host has been cut out: \<open>j\<close> and \<open>k\<close> are the
  positions from which a stray bracket is looked for, \<open>i\<close> is the last colon.
\<close>

definition checkBrackets ::
  "string \<Rightarrow> string \<Rightarrow> nat \<Rightarrow> nat \<Rightarrow> int \<Rightarrow> string \<times> string \<times> error option" where
  "checkBrackets hostport host j k i =
     (if 0 \<le> IndexByte (drop j hostport) CHR ''['' then
        addrErr hostport ''unexpected '[' in address''
      else if 0 \<le> IndexByte (drop k hostport) CHR '']'' then
        addrErr hostport ''unexpected ']' in address''
      else (host, drop (nat (i + 1)) hostport, None))"

definition SplitHostPort :: "string \<Rightarrow> string \<times> string \<times> error option" where
  "SplitHostPort hostport =
     (let i = LastIndexByte hostport CHR '':'' in
      if i < 0 then addrErr hostport missingPort
      else if hd hostport = CHR ''['' then
        (let e = IndexByte hostport CHR '']'' in
         if e < 0 then addrErr hostport ''missing ']' in address''
         else if e + 1 = int (length hostport) then addrErr hostport missingPort
         else if e + 1 = i then
           checkBrackets hostport (take (nat e - 1) (drop 1 hostport)) 1 (nat (e + 1)) i
         else if hostport ! nat (e + 1) = CHR '':'' then addrErr hostport tooManyColons
         else addrErr hostport missingPort)
      else
        (let host = take (nat i) hostport in
         if 0 \<le> IndexByte host CHR '':'' then addrErr hostport tooManyColons
         else checkBrackets hostport host 0 0 i))"

subsection \<open>float64 arithmetic and fmt.Sprintf("%.3f ms", x)\<close>

text \<open>
  Every float64 operation returns the exact result rounded to the nearest number with a
  53-bit significand, ties to the even significand.
\<close>

definition round_half_even :: "rat \<Rightarrow> int" where
  "round_half_even x =
     (let f = \<lfloor>x\<rfloor>; r = x - of_int f
      in if r < 1 / 2 then f else if 1 / 2 < r then f + 1 else if even f then f else f + 1)"

definition pow2 :: "int \<Rightarrow> rat" where
  "pow2 q = (if 0 \<le> q then 2 ^ nat q else 1 / 2 ^ nat (- q))"

definition ilog2 :: "rat \<Rightarrow> int" where
  "ilog2 x =
     (let (a, b) = quotient_of \<bar>x\<bar>; k = bitlen a - bitlen b
      in if pow2 k \<le> \<bar>x\<bar> then k else k - 1)"

definition float64 :: "rat \<Rightarrow> rat" where
  "float64 x =
     (if x = 0 then 0
      else (let q = max (ilog2 x - 52) (- 1074)
            in of_int (round_half_even (x / pow2 q)) * pow2 q))"

definition pad3 :: "int \<Rightarrow> string" where
  "pad3 n = (let s = decimal n in replicate (3 - length s) CHR ''0'' @ s)"

definition FormatFloat_f3 :: "rat \<Rightarrow> string" where
  "FormatFloat_f3 x =
     (let m = round_half_even (\<bar>x\<bar> * 1000)
      in (if x < 0 then ''-'' else '''') @ decimal (m div 1000) @ ''.'' @ pad3 (m mod 1000))"

definition Sprintf_ms :: "rat \<Rightarrow> string" where
  "Sprintf_ms x = FormatFloat_f3 x @ '' ms''"

subsection \<open>time.Time.Sub and time.Duration.Seconds\<close>

definition Sub :: "Time \<Rightarrow> Time \<Rightarrow> Duration" where
  "Sub t u =
     (if 2 ^ 63 - 1 < t - u then word_of_int (2 ^ 63 - 1)
      else if t - u < - (2 ^ 63) then word_of_int (- (2 ^ 63))
      else word_of_int (t - u))"

definition Seconds :: "Duration \<Rightarrow> rat" where
  "Seconds d =
     (let sec = sint d sdiv 1000000000; nsec = sint d smod 1000000000
      in float64 (float64 (of_int sec) + float64 (float64 (of_int nsec) / 1000000000)))"

section \<open>The request and the collaborators of the middleware\<close>

text \<open>
  The fields of \<open>http.Request\<close> the logger reads. \<open>User\<close> is \<open>req.URL.User\<close>, a
  pointer that may be nil; \<open>Header\<close> maps a canonical header name to its values.
\<close>

record Userinfo =
  username :: string
  password :: string
  passwordSet :: bool

record Request =
  Method :: string
  User :: "Userinfo option"
  Proto :: string
  Header :: "string \<rightharpoonup> string list"
  RequestURI :: string
  RemoteAddr :: string

definition Header_Get :: "(string \<rightharpoonup> string list) \<Rightarrow> string \<Rightarrow> string" where
  "Header_Get hdr key =
     (case hdr key of None \<Rightarrow> '''' | Some vs \<Rightarrow> (case vs of [] \<Rightarrow> '''' | v # _ \<Rightarrow> v))"

definition Referer :: "Request \<Rightarrow> string" where
  "Referer req = Header_Get (Header req) ''Referer''"

definition UserAgent :: "Request \<Rightarrow> string" where
  "UserAgent req = Header_Get (Header req) ''User-Agent''"

definition Username :: "Userinfo option \<Rightarrow> string" where
  "Username u = (case u of None \<Rightarrow> '''' | Some ui \<Rightarrow> username ui)"

text \<open>
  An \<open>http.ResponseWriter\<close> is an interface value: the methods of its implementation
  together with the implementation's state \<open>'w\<close>. \<open>Flush_impl\<close> is \<open>None\<close> when the
  implementation is not an \<open>http.Flusher\<close>.
\<close>

record 'w ResponseWriter =
  Write_impl :: "'w \<Rightarrow> string \<Rightarrow> (go_int \<times> error option) \<times> 'w"
  WriteHeader_impl :: "'w \<Rightarrow> go_int \<Rightarrow> 'w"
  Flush_impl :: "('w \<Rightarrow> 'w) option"
  state :: 'w

definition rw_Write ::
  "'w ResponseWriter \<Rightarrow> string \<Rightarrow> (go_int \<times> error option) \<times> 'w ResponseWriter" where
  "rw_Write w bytes = (let (r, s) = Write_impl w (state w) bytes in (r, w\<lparr>state := s\<rparr>))"

definition rw_WriteHeader :: "'w ResponseWriter \<Rightarrow> go_int \<Rightarrow> 'w ResponseWriter" where
  "rw_WriteHeader w code = w\<lparr>state := WriteHeader_impl w (state w) code\<rparr>"

text \<open>An \<open>io.Writer\<close> is its \<open>Write\<close> method over the state \<open>'s\<close> of the sink.\<close>

type_synonym 's Writer = "'s \<Rightarrow> string \<Rightarrow> (go_int \<times> error option) \<times> 's"

text \<open>
  The calls a \<open>*statsd.Client\<close> receives. A client pointer is an address or nil; the
  world keeps, for every address, the calls made on that client so far.
\<close>

datatype statsd_call =
  Incr string "string list" rat
| Gauge string rat "string list" rat
| Timing string Duration "string list" rat

text \<open>
  The world outside one request: the state of the output sink, the calls received by the
  statsd clients, the successive readings of \<open>time.Now()\<close> with the number of readings
  taken so far, and the rendering of a time in the layout \<open>timeFormat\<close> (it depends on
  the calendar and the local zone, which are not part of this package).
\<close>

record 's world =
  sink :: 's
  statsd :: "nat \<Rightarrow> statsd_call list"
  clock :: "nat \<Rightarrow> Time"
  ticks :: nat
  Format_timeFormat :: "Time \<Rightarrow> string"

definition Now :: "'s world \<Rightarrow> Time \<times> 's world" where
  "Now wd = (clock wd (ticks wd), wd\<lparr>ticks := Suc (ticks wd)\<rparr>)"

definition Fprintln :: "'s Writer \<Rightarrow> string \<Rightarrow> 's world \<Rightarrow> 's world" where
  "Fprintln w s wd = (let (r, s') = w (sink wd) (s @ [CHR 0x0A]) in wd\<lparr>sink := s'\<rparr>)"

definition client_call :: "nat \<Rightarrow> statsd_call \<Rightarrow> 's world \<Rightarrow> 's world" where
  "client_call c m wd = wd\<lparr>statsd := (statsd wd)(c := statsd wd c @ [m])\<rparr>"

section \<open>logger.go\<close>

type_synonym Type = go_int

definition CombineLoggerType :: Type where "CombineLoggerType = 1"
definition CommonLoggerType :: Type where "CommonLoggerType = 2"
definition DevLoggerType :: Type where "DevLoggerType = 3"
definition ShortLoggerType :: Type where "ShortLoggerType = 4"
definition TinyLoggerType :: Type where "TinyLoggerType = 5"

definition StatusOK :: go_int where "StatusOK = 200"

subsection \<open>responseLogger\<close>

record 'w responseLogger =
  rw :: "'w ResponseWriter"
  start :: Time
  status :: go_int
  size :: go_int

definition Write ::
  "'w responseLogger \<Rightarrow> string \<Rightarrow> (go_int \<times> error option) \<times> 'w responseLogger" where
  "Write rl bytes =
     (let rl1 = (if status rl = 0 then rl\<lparr>status := StatusOK\<rparr> else rl);
          ((n, err), w) = rw_Write (rw rl1) bytes;
          rl2 = rl1\<lparr>rw := w, size := size rl1 + n\<rparr>
      in ((n, err), rl2))"

definition WriteHeader :: "'w responseLogger \<Rightarrow> go_int \<Rightarrow> 'w responseLogger" where
  "WriteHeader rl code =
     (let rl1 = rl\<lparr>status := code\<rparr>
      in rl1\<lparr>rw := rw_WriteHeader (rw rl1) code\<rparr>)"

definition Flush :: "'w responseLogger \<Rightarrow> 'w responseLogger" where
  "Flush rl =
     (case Flush_impl (rw rl) of
        Some f \<Rightarrow> rl\<lparr>rw := (rw rl)\<lparr>state := f (state (rw rl))\<rparr>\<rparr>
      | None \<Rightarrow> rl)"

text \<open>
  The wrapped handler \<open>h\<close> sees the \<open>responseLogger\<close> only as an \<open>http.ResponseWriter\<close>:
  its body is a tree of the calls it makes, each \<open>Write\<close> continuing on the result it got.
  \<open>Header\<close> hands out the header map of the wrapped writer and touches no field of the
  observer, so it is not among the calls.
\<close>

datatype handler_body =
  Return
| CallWrite string "go_int \<times> error option \<Rightarrow> handler_body"
| CallWriteHeader go_int handler_body
| CallFlush handler_body

primrec run :: "handler_body \<Rightarrow> 'w responseLogger \<Rightarrow> 'w responseLogger" where
  "run Return = (\<lambda>rl. rl)"
| "run (CallWrite bytes k) = (\<lambda>rl. let (r, rl') = Write rl bytes in run (k r) rl')"
| "run (CallWriteHeader code p) = (\<lambda>rl. run p (WriteHeader rl code))"
| "run (CallFlush p) = (\<lambda>rl. run p (Flush rl))"

subsection \<open>The field extractors\<close>

definition extractUsername :: "Request \<Rightarrow> string" where
  "extractUsername req =
     (case User req of
        None \<Rightarrow> ''-''
      | Some ui \<Rightarrow> (let name = Username (Some ui) in if name \<noteq> '''' then name else ''-''))"

definition extractRemoteIP :: "Request \<Rightarrow> string" where
  "extractRemoteIP req = (case SplitHostPort (RemoteAddr req) of (host, _, _) \<Rightarrow> host)"

definition parseResponseTime :: "Time \<Rightarrow> 's world \<Rightarrow> string \<times> 's world" where
  "parseResponseTime st wd =
     (let (now, wd') = Now wd
      in (Sprintf_ms (float64 (Seconds (Sub now st) / 1000000)), wd'))"

subsection \<open>The five log functions and their selection\<close>

type_synonym ('w, 's) logFn =
  "'s Writer \<Rightarrow> 'w responseLogger \<Rightarrow> Request \<Rightarrow> 's world \<Rightarrow> 's world"

definition combineLogFn :: "('w, 's) logFn" where
  "combineLogFn w rl req wd =
     Fprintln w (Join [
       extractRemoteIP req,
       ''-'',
       extractUsername req,
       ''['' @ Format_timeFormat wd (start rl) @ '']'',
       [CHR 0x22] @ Method req,
       RequestURI req,
       Proto req @ [CHR 0x22],
       Itoa (status rl),
       Itoa (size rl),
       [CHR 0x22] @ Referer req @ [CHR 0x22],
       [CHR 0x22] @ UserAgent req @ [CHR 0x22]
     ] '' '') wd"

definition commonLogFn :: "('w, 's) logFn" where
  "commonLogFn w rl req wd =
     Fprintln w (Join [
       extractRemoteIP req,
       ''-'',
       extractUsername req,
       ''['' @ Format_timeFormat wd (start rl) @ '']'',
       [CHR 0x22] @ Method req,
       RequestURI req,
       Proto req @ [CHR 0x22],
       Itoa (status rl),
       Itoa (size rl)
     ] '' '') wd"

definition devLogFn :: "('w, 's) logFn" where
  "devLogFn w rl req wd =
     (let (responseTime, wd') = parseResponseTime (start rl) wd
      in Fprintln w (Join [
           Method req,
           RequestURI req,
           Itoa (status rl),
           responseTime,
           ''-'',
           Itoa (size rl)
         ] '' '') wd')"

definition shortLogFn :: "('w, 's) logFn" where
  "shortLogFn w rl req wd =
     (let (responseTime, wd') = parseResponseTime (start rl) wd
      in Fprintln w (Join [
           extractRemoteIP req,
           extractUsername req,
           Method req,
           RequestURI req,
           Proto req,
           Itoa (status rl),
           Itoa (size rl),
           ''-'',
           responseTime
         ] '' '') wd')"

definition tinyLogFn :: "('w, 's) logFn" where
  "tinyLogFn w rl req wd =
     (let (responseTime, wd') = parseResponseTime (start rl) wd
      in Fprintln w (Join [
           Method req,
           RequestURI req,
           Itoa (status rl),
           Itoa (size rl),
           ''-'',
           responseTime
         ] '' '') wd')"

definition logFnForType :: "Type \<Rightarrow> panic + ('w, 's) logFn" where
  "logFnForType t =
     (if t = CombineLoggerType then Inr combineLogFn
      else if t = CommonLoggerType then Inr commonLogFn
      else if t = DevLoggerType then Inr devLogFn
      else if t = ShortLoggerType then Inr shortLogFn
      else if t = TinyLoggerType then Inr tinyLogFn
      else Inl (Panic ''Should never get here.''))"

subsection \<open>loggerHandler\<close>

record ('w, 's) loggerHandler =
  h :: "Request \<Rightarrow> handler_body"
  formatType :: Type
  writer :: "'s Writer"
  logFn :: "('w, 's) logFn"
  stats :: "nat option"

definition Handler ::
  "(Request \<Rightarrow> handler_body) \<Rightarrow> 's Writer \<Rightarrow> Type \<Rightarrow> nat option
     \<Rightarrow> panic + ('w, 's) loggerHandler" where
  "Handler inner out t client =
     (case logFnForType t of
        Inl p \<Rightarrow> Inl p
      | Inr f \<Rightarrow> Inr \<lparr>h = inner, formatType = 0, writer = out, logFn = f, stats = client\<rparr>)"

definition DefaultHandler ::
  "'s Writer \<Rightarrow> (Request \<Rightarrow> handler_body) \<Rightarrow> panic + ('w, 's) loggerHandler" where
  "DefaultHandler Stdout inner = Handler inner Stdout CombineLoggerType None"

definition ServeHTTP ::
  "('w, 's) loggerHandler \<Rightarrow> 'w ResponseWriter \<Rightarrow> Request \<Rightarrow> 's world
     \<Rightarrow> 'w ResponseWriter \<times> 's world" where
  "ServeHTTP rh res req wd =
     (let (t0, wd1) = Now wd;
          rl0 = \<lparr>rw = res, start = t0, status = 0, size = 0\<rparr>;
          rl = run (h rh req) rl0;
          wd2 = logFn rh (writer rh) rl req wd1;
          wd3 = (case stats rh of
                   None \<Rightarrow> wd2
                 | Some c \<Rightarrow>
                     (let tags = [''status:'' @ Itoa (status rl), ''method:'' @ Method req];
                          wd4 = client_call c (Incr ''http.response'' tags 1) wd2;
                          wd5 = client_call c
                                  (Gauge ''http.size'' (float64 (of_int (sint (size rl)))) tags 1) wd4;
                          (t1, wd6) = Now wd5
                      in client_call c (Timing ''http.response'' (Sub t1 (start rl)) tags 1) wd6))
      in (rw rl, wd3))"

subsection \<open>The response time as the specification words it\<close>

text \<open>
  The elapsed duration in milliseconds (a duration counts nanoseconds), rendered with
  three decimal digits and followed by \<open>" ms"\<close>.
\<close>

definition responseTime_spec :: "Duration \<Rightarrow> string" where
  "responseTime_spec d = Sprintf_ms (float64 (of_int (sint d) / 1000000))"

subsection \<open>Auxiliary notions for the statements\<close>

text \<open>The formats whose line carries a response time, and so read the clock once more.\<close>

definition usesResponseTime :: "Type \<Rightarrow> bool" where
  "usesResponseTime t \<longleftrightarrow> t = DevLoggerType \<or> t = ShortLoggerType \<or> t = TinyLoggerType"

text \<open>
  A sequence of \<open>Write\<close> calls on the observer, and the byte counts the wrapped writer
  itself reports when it is given the same chunks directly.
\<close>

fun WriteAll :: "'w responseLogger \<Rightarrow> string list \<Rightarrow> 'w responseLogger" where
  "WriteAll rl [] = rl"
| "WriteAll rl (b # bs) = WriteAll (snd (Write rl b)) bs"

fun reported :: "'w ResponseWriter \<Rightarrow> string list \<Rightarrow> go_int list" where
  "reported w [] = []"
| "reported w (b # bs) = fst (fst (rw_Write w b)) # reported (snd (rw_Write w b)) bs"

text \<open>
  The observer \<open>ServeHTTP\<close> creates for a request, as the wrapped handler leaves it.
\<close>

definition observer_after ::
  "(Request \<Rightarrow> handler_body) \<Rightarrow> 'w ResponseWriter \<Rightarrow> Request \<Rightarrow> 's world \<Rightarrow> 'w responseLogger" where
  "observer_after inner res req wd =
     run (inner req) \<lparr>rw = res, start = clock wd (ticks wd), status = 0, size = 0\<rparr>"

text \<open>
  The byte counts the wrapped writer reports when the body of a handler is run on it
  directly, without the observer in between.
\<close>

primrec reported_by :: "handler_body \<Rightarrow> 'w ResponseWriter \<Rightarrow> go_int list" where
  "reported_by Return = (\<lambda>w. [])"
| "reported_by (CallWrite bytes k) =
     (\<lambda>w. fst (fst (rw_Write w bytes))
          # reported_by (k (fst (rw_Write w bytes))) (snd (rw_Write w bytes)))"
| "reported_by (CallWriteHeader code p) = (\<lambda>w. reported_by p (rw_WriteHeader w code))"
| "reported_by (CallFlush p) =
     (\<lambda>w. reported_by p
          (case Flush_impl w of Some f \<Rightarrow> w\<lparr>state := f (state w)\<rparr> | None \<Rightarrow> w))"

text \<open>
  A handler body that calls neither \<open>Write\<close> nor \<open>WriteHeader\<close> (it may call \<open>Flush\<close>),
  the number of its \<open>Flush\<close> calls, and what one \<open>Flush\<close> of the observer does to the
  wrapped writer.
\<close>

primrec silent :: "handler_body \<Rightarrow> bool" where
  "silent Return = True"
| "silent (CallWrite bytes k) = False"
| "silent (CallWriteHeader code p) = False"
| "silent (CallFlush p) = silent p"

primrec flushes :: "handler_body \<Rightarrow> nat" where
  "flushes Return = 0"
| "flushes (CallWrite bytes k) = 0"
| "flushes (CallWriteHeader code p) = 0"
| "flushes (CallFlush p) = Suc (flushes p)"

definition rw_Flush :: "'w ResponseWriter \<Rightarrow> 'w ResponseWriter" where
  "rw_Flush w = (case Flush_impl w of Some f \<Rightarrow> w\<lparr>state := f (state w)\<rparr> | None \<Rightarrow> w)"

section \<open>Concrete collaborators\<close>

text \<open>
  A response writer that buffers the body, one that accepts at most five bytes of each
  chunk, a sink that records every line, a sink whose writes fail, a clock that advances
  by 1.5 seconds between readings, a handler that writes a twelve-byte body, a handler
  that returns at once, a handler that only flushes, a response writer that counts its
  flushes, and the request \<open>GET /ping\<close>.
\<close>

definition bufWriter :: "string ResponseWriter" where
  "bufWriter =
     \<lparr>Write_impl = (\<lambda>s b. ((word_of_nat (length b), None), s @ b)),
      WriteHeader_impl = (\<lambda>s c. s),
      Flush_impl = None,
      state = ''''\<rparr>"

definition shortWriter :: "string ResponseWriter" where
  "shortWriter =
     \<lparr>Write_impl = (\<lambda>s b. ((word_of_nat (min 5 (length b)),
                              if 5 < length b then Some (WriteError ''short write'') else None),
                             s @ take 5 b)),
      WriteHeader_impl = (\<lambda>s c. s),
      Flush_impl = None,
      state = ''''\<rparr>"

definition recorder :: "string list Writer" where
  "recorder = (\<lambda>s line. ((word_of_nat (length line), None), s @ [line]))"

definition brokenSink :: "string list Writer" where
  "brokenSink = (\<lambda>s line. ((0, Some (WriteError ''closed pipe'')), s))"

definition world0 :: "string list world" where
  "world0 =
     \<lparr>sink = [],
      statsd = (\<lambda>_. []),
      clock = (\<lambda>n. 1000 + int n * 1500000000),
      ticks = 0,
      Format_timeFormat = (\<lambda>_. ''10/Oct/2000:13:55:36 -0700'')\<rparr>"

definition ping :: "Request \<Rightarrow> handler_body" where
  "ping = (\<lambda>req. CallWrite ''pong pong 12'' (\<lambda>_. Return))"

definition idle :: "Request \<Rightarrow> handler_body" where
  "idle = (\<lambda>req. Return)"

definition flushOnly :: "Request \<Rightarrow> handler_body" where
  "flushOnly = (\<lambda>req. CallFlush Return)"

definition flushCounter :: "nat ResponseWriter" where
  "flushCounter =
     \<lparr>Write_impl = (\<lambda>s b. ((word_of_nat (length b), None), s)),
      WriteHeader_impl = (\<lambda>s c. s),
      Flush_impl = Some Suc,
      state = 0\<rparr>"

definition req0 :: Request where
  "req0 =
     \<lparr>Method = ''GET'', User = None, Proto = ''HTTP/1.1'', Header = Map.empty,
      RequestURI = ''/ping'', RemoteAddr = ''127.0.0.1:5000''\<rparr>"

section \<open>Properties\<close>

subsection \<open>Frame lemmas\<close>

lemma Fprintln_simps:
  "sink (Fprintln w s wd) = snd (w (sink wd) (s @ [CHR 0x0A]))"
  "statsd (Fprintln w s wd) = statsd wd"
  "clock (Fprintln w s wd) = clock wd"
  "ticks (Fprintln w s wd) = ticks wd"
  "Format_timeFormat (Fprintln w s wd) = Format_timeFormat wd"
  by (simp_all add: Fprintln_def split_def)

lemma parseResponseTime_simps:
  "fst (parseResponseTime st wd) =
     Sprintf_ms (float64 (Seconds (Sub (clock wd (ticks wd)) st) / 1000000))"
  "snd (parseResponseTime st wd) = wd\<lparr>ticks := Suc (ticks wd)\<rparr>"
  by (simp_all add: parseResponseTime_def Now_def)

lemma client_call_simps:
  "sink (client_call c m wd) = sink wd"
  "statsd (client_call c m wd) = (statsd wd)(c := statsd wd c @ [m])"
  "clock (client_call c m wd) = clock wd"
  "ticks (client_call c m wd) = ticks wd"
  by (simp_all add: client_call_def)

lemma logFnForType_cases:
  assumes "logFnForType t = Inr f"
  obtains "t = CombineLoggerType" "f = combineLogFn"
  | "t = CommonLoggerType" "f = commonLogFn"
  | "t = DevLoggerType" "f = devLogFn"
  | "t = ShortLoggerType" "f = shortLogFn"
  | "t = TinyLoggerType" "f = tinyLogFn"
  using assms by (auto simp: logFnForType_def split: if_splits)

lemma Type_distinct:
  "CombineLoggerType \<noteq> DevLoggerType" "CombineLoggerType \<noteq> ShortLoggerType"
  "CombineLoggerType \<noteq> TinyLoggerType" "CommonLoggerType \<noteq> DevLoggerType"
  "CommonLoggerType \<noteq> ShortLoggerType" "CommonLoggerType \<noteq> TinyLoggerType"
  "CombineLoggerType \<noteq> CommonLoggerType" "DevLoggerType \<noteq> ShortLoggerType"
  "DevLoggerType \<noteq> TinyLoggerType" "ShortLoggerType \<noteq> TinyLoggerType"
  by (simp_all add: CombineLoggerType_def CommonLoggerType_def DevLoggerType_def
      ShortLoggerType_def TinyLoggerType_def)

lemma usesResponseTime_simps:
  "\<not> usesResponseTime CombineLoggerType" "\<not> usesResponseTime CommonLoggerType"
  "usesResponseTime DevLoggerType" "usesResponseTime ShortLoggerType"
  "usesResponseTime TinyLoggerType"
  by (simp_all add: usesResponseTime_def Type_distinct)

lemma plain_frame:
  "statsd (combineLogFn w rl req wd) = statsd wd"
  "clock (combineLogFn w rl req wd) = clock wd"
  "ticks (combineLogFn w rl req wd) = ticks wd"
  "statsd (commonLogFn w rl req wd) = statsd wd"
  "clock (commonLogFn w rl req wd) = clock wd"
  "ticks (commonLogFn w rl req wd) = ticks wd"
  by (simp_all add: combineLogFn_def commonLogFn_def Fprintln_simps)

lemma timed_frame:
  "statsd (devLogFn w rl req wd) = statsd wd"
  "clock (devLogFn w rl req wd) = clock wd"
  "ticks (devLogFn w rl req wd) = Suc (ticks wd)"
  "statsd (shortLogFn w rl req wd) = statsd wd"
  "clock (shortLogFn w rl req wd) = clock wd"
  "ticks (shortLogFn w rl req wd) = Suc (ticks wd)"
  "statsd (tinyLogFn w rl req wd) = statsd wd"
  "clock (tinyLogFn w rl req wd) = clock wd"
  "ticks (tinyLogFn w rl req wd) = Suc (ticks wd)"
  by (simp_all add: devLogFn_def shortLogFn_def tinyLogFn_def Fprintln_simps
      parseResponseTime_simps split_def)

lemma logFn_frame:
  assumes "logFnForType t = Inr f"
  shows "statsd (f w rl req wd) = statsd wd"
    and "clock (f w rl req wd) = clock wd"
    and "ticks (f w rl req wd) = ticks wd + (if usesResponseTime t then 1 else 0)"
  using assms
  by (cases rule: logFnForType_cases; simp add: plain_frame timed_frame usesResponseTime_simps)+

lemma Handler_Inr:
  "Handler inner out t client = Inr rh \<longleftrightarrow>
     (\<exists>f. logFnForType t = Inr f \<and>
          rh = \<lparr>h = inner, formatType = 0, writer = out, logFn = f, stats = client\<rparr>)"
  by (auto simp: Handler_def split: sum.splits)

lemma ServeHTTP_fst:
  "fst (ServeHTTP rh res req wd) =
     rw (run (h rh req) \<lparr>rw = res, start = clock wd (ticks wd), status = 0, size = 0\<rparr>)"
  by (simp add: ServeHTTP_def Now_def Let_def split_def)

lemma ServeHTTP_sink:
  "sink (snd (ServeHTTP rh res req wd)) =
     sink (logFn rh (writer rh)
       (run (h rh req) \<lparr>rw = res, start = clock wd (ticks wd), status = 0, size = 0\<rparr>)
       req (wd\<lparr>ticks := Suc (ticks wd)\<rparr>))"
  by (simp add: ServeHTTP_def Now_def Let_def split_def client_call_simps split: option.splits)

subsection \<open>Conversion of an int to float64\<close>

lemma round_half_even_of_int: "round_half_even (of_int m) = m"
  by (simp add: round_half_even_def)

lemma ilog2_of_int:
  assumes "n \<noteq> 0"
  shows "ilog2 (of_int n) = bitlen \<bar>n\<bar> - 1"
proof -
  have pos: "0 < \<bar>n\<bar>" using assms by simp
  have q: "quotient_of \<bar>rat_of_int n\<bar> = (\<bar>n\<bar>, 1)"
    by (simp flip: of_int_abs)
  have b1: "bitlen 1 = 1"
    by (simp add: bitlen_alt_def)
  have ge: "1 \<le> bitlen \<bar>n\<bar>"
    using pos by (simp add: bitlen_ge_iff_power)
  have "2 ^ nat (bitlen \<bar>n\<bar> - 1) \<le> \<bar>n\<bar>"
    using bitlen_bounds [OF pos] by simp
  then have "(2 :: rat) ^ nat (bitlen \<bar>n\<bar> - 1) \<le> of_int \<bar>n\<bar>"
    by (metis of_int_le_iff of_int_numeral of_int_power)
  then have "pow2 (bitlen \<bar>n\<bar> - 1) \<le> \<bar>rat_of_int n\<bar>"
    using ge by (simp add: pow2_def)
  then show ?thesis
    by (simp add: ilog2_def q b1)
qed

lemma float64_two_53:
  "float64 9007199254740992 = 9007199254740992"
  "float64 (- 9007199254740992) = - 9007199254740992"
  by code_simp+

lemma float64_of_int_exact:
  assumes "\<bar>n\<bar> \<le> 2 ^ 53"
  shows "float64 (of_int n) = of_int n"
proof (cases "n = 0")
  case True
  then show ?thesis by (simp add: float64_def)
next
  case False
  define k where "k = bitlen \<bar>n\<bar> - 1"
  have pos: "0 < \<bar>n\<bar>" using False by simp
  have "1 \<le> bitlen \<bar>n\<bar>"
    using pos by (simp add: bitlen_ge_iff_power)
  then have k0: "0 \<le> k"
    by (simp add: k_def)
  have "\<bar>n\<bar> < 2 ^ nat 54" using assms by simp
  then have "bitlen \<bar>n\<bar> \<le> 54"
    by (subst bitlen_le_iff_power) simp
  then have k53: "k \<le> 53" by (simp add: k_def)
  have q: "max (ilog2 (rat_of_int n) - 52) (- 1074) = k - 52"
    using k0 by (simp add: ilog2_of_int [OF False] k_def)
  have fl: "float64 (of_int n) = of_int (round_half_even (of_int n / pow2 (k - 52))) * pow2 (k - 52)"
    using False by (simp add: float64_def q Let_def)
  show ?thesis
  proof (cases "k \<le> 52")
    case True
    then have p: "pow2 (k - 52) = 1 / 2 ^ nat (52 - k)"
      by (cases "k = 52") (simp_all add: pow2_def)
    have "rat_of_int n / pow2 (k - 52) = of_int (n * 2 ^ nat (52 - k))"
      by (simp add: p)
    then have "round_half_even (of_int n / pow2 (k - 52)) = n * 2 ^ nat (52 - k)"
      by (simp only: round_half_even_of_int)
    then show ?thesis
      by (simp add: fl p)
  next
    case False
    with k53 have k: "k = 53" by simp
    then have "54 \<le> bitlen \<bar>n\<bar>" by (simp add: k_def)
    then have "2 ^ 53 \<le> \<bar>n\<bar>"
      by (simp add: bitlen_ge_iff_power)
    with assms have n: "\<bar>n\<bar> = 2 ^ 53" by simp
    then consider "n = 2 ^ 53" | "n = - (2 ^ 53)" by (auto simp: abs_if split: if_splits)
    then show ?thesis
    proof cases
      case 1
      then show ?thesis by (simp add: float64_two_53)
    next
      case 2
      then show ?thesis by (simp add: float64_two_53)
    qed
  qed
qed

subsection \<open>Construction\<close>

text \<open>
  C2. A format selector that is none of the five enumeration values makes \<open>Handler\<close>
  panic with the message of \<open>logFnForType\<close>: construction aborts, and no handler with
  some fallback format is returned.
\<close>

theorem Handler_unknown_type_panics:
  "t \<notin> {CombineLoggerType, CommonLoggerType, DevLoggerType, ShortLoggerType, TinyLoggerType}
   \<Longrightarrow> Handler inner out t client = Inl (Panic ''Should never get here.'')"
  by (simp add: Handler_def logFnForType_def)

theorem Handler_unknown_type_panics_witness:
  "(0 :: Type) \<notin>
     {CombineLoggerType, CommonLoggerType, DevLoggerType, ShortLoggerType, TinyLoggerType}
   \<and> (Handler idle recorder 0 None :: panic + (string, string list) loggerHandler)
       = Inl (Panic ''Should never get here.'')"
proof -
  have a: "(0 :: Type) \<notin>
     {CombineLoggerType, CommonLoggerType, DevLoggerType, ShortLoggerType, TinyLoggerType}"
    by (simp add: CombineLoggerType_def CommonLoggerType_def DevLoggerType_def
        ShortLoggerType_def TinyLoggerType_def)
  show ?thesis using a Handler_unknown_type_panics [OF a] by simp
qed

subsection \<open>The Response Observer\<close>

text \<open>
  C4. A \<open>Write\<close> on an observer whose status is still unset (0) records status 200 and
  forwards the bytes to the wrapped writer; after \<open>WriteHeader 404\<close> (or any non-zero
  code) a \<open>Write\<close> leaves the recorded status as it was set.
\<close>

theorem Write_status:
  "(status rl = 0 \<longrightarrow> status (snd (Write rl bytes)) = 200)
   \<and> (code \<noteq> 0 \<longrightarrow> status (snd (Write (WriteHeader rl code) bytes)) = code)
   \<and> status (snd (Write (WriteHeader rl 404) bytes)) = 404
   \<and> rw (snd (Write rl bytes)) = snd (rw_Write (rw rl) bytes)"
  by (simp add: Write_def WriteHeader_def StatusOK_def Let_def split: prod.splits)

theorem Write_status_witness:
  "status \<lparr>rw = bufWriter, start = 0, status = 0, size = 0\<rparr> = 0
   \<and> status (snd (Write \<lparr>rw = bufWriter, start = 0, status = 0, size = 0\<rparr> ''abc'')) = 200
   \<and> (404 :: go_int) \<noteq> 0
   \<and> status (snd (Write (WriteHeader \<lparr>rw = bufWriter, start = 0, status = 0, size = 0\<rparr> 404)
        ''abc'')) = 404"
  using Write_status [of "\<lparr>rw = bufWriter, start = 0, status = 0, size = 0\<rparr>" "''abc''" 404]
  by simp

lemma Write_simps:
  "rw (snd (Write rl b)) = snd (rw_Write (rw rl) b)"
  "size (snd (Write rl b)) = size rl + fst (fst (rw_Write (rw rl) b))"
  "start (snd (Write rl b)) = start rl"
  "fst (Write rl b) = fst (rw_Write (rw rl) b)"
  by (simp_all add: Write_def Let_def split_def)

lemma WriteAll_size:
  "size (WriteAll rl bs) = size rl + sum_list (reported (rw rl) bs)"
  by (induction bs arbitrary: rl) (simp_all add: Write_simps add.assoc)

lemma sum_list_sint:
  "(sum_list ws :: go_int) = word_of_int (sum_list (map sint ws))"
  by (induction ws) simp_all

lemma sint_sum_list:
  assumes "\<forall>n \<in> set ws. 0 \<le> sint n" and "sum_list (map sint ws) < 2 ^ 63"
  shows "sint (sum_list ws :: go_int) = sum_list (map sint ws)"
proof -
  have "0 \<le> sum_list (map sint ws)"
    using assms(1) by (induction ws) simp_all
  with assms(2) have "signed_take_bit 63 (sum_list (map sint ws)) = sum_list (map sint ws)"
    by (intro signed_take_bit_int_eq_self) simp_all
  then show ?thesis
    by (simp add: sum_list_sint [of ws] sint_sbintrunc')
qed

lemma observer_frame:
  "start (Flush rl) = start rl" "status (Flush rl) = status rl" "size (Flush rl) = size rl"
  "start (WriteHeader rl code) = start rl" "size (WriteHeader rl code) = size rl"
  by (simp_all add: Flush_def WriteHeader_def Let_def split: option.splits)

lemma observer_rw:
  "rw (WriteHeader rl code) = rw_WriteHeader (rw rl) code"
  "rw (Flush rl) =
     (case Flush_impl (rw rl) of
        Some f \<Rightarrow> (rw rl)\<lparr>state := f (state (rw rl))\<rparr>
      | None \<Rightarrow> rw rl)"
  by (simp_all add: WriteHeader_def Flush_def Let_def split: option.splits)

lemma run_size:
  "size (run p rl) = size rl + sum_list (reported_by p (rw rl))"
  by (induction p arbitrary: rl)
    (simp_all add: Write_simps observer_frame observer_rw split_def add.assoc)

text \<open>
  C3. After any sequence of \<open>Write\<close> calls the recorded size is the size before plus the
  sum of the byte counts the wrapped writer reported, in Go's \<open>int\<close> arithmetic; a single
  \<open>Write\<close> adds the count the wrapped writer returned, whatever the length of the chunk,
  and returns that count and error unchanged. The same holds for the calls of any handler
  body, where \<open>WriteHeader\<close> and \<open>Flush\<close> leave the size alone. Read as integers, the
  size of a fresh observer is the integer sum as long as that sum fits an \<open>int\<close>.
\<close>

theorem Write_counts_reported_bytes:
  "size (WriteAll rl chunks) = size rl + sum_list (reported (rw rl) chunks)
   \<and> size (snd (Write rl b)) = size rl + fst (fst (rw_Write (rw rl) b))
   \<and> fst (Write rl b) = fst (rw_Write (rw rl) b)
   \<and> size (run p rl) = size rl + sum_list (reported_by p (rw rl))
   \<and> (size rl = 0 \<and> (\<forall>n \<in> set (reported (rw rl) chunks). 0 \<le> sint n)
        \<and> sum_list (map sint (reported (rw rl) chunks)) < 2 ^ 63
      \<longrightarrow> sint (size (WriteAll rl chunks)) = sum_list (map sint (reported (rw rl) chunks)))"
  by (simp add: WriteAll_size Write_simps run_size sint_sum_list)

lemma reported_shortWriter:
  "reported shortWriter [''hello world!'', ''abc''] = [5, 3]"
  by (simp add: rw_Write_def shortWriter_def split_def)

theorem Write_counts_reported_bytes_witness:
  "reported shortWriter [''hello world!'', ''abc''] = [5, 3]
   \<and> 0 \<le> sint (5 :: go_int) \<and> 0 \<le> sint (3 :: go_int)
   \<and> sum_list (map sint [5, 3 :: go_int]) < 2 ^ 63
   \<and> size (WriteAll \<lparr>rw = shortWriter, start = 0, status = 0, size = 0\<rparr>
        [''hello world!'', ''abc'']) = 8
   \<and> sint (size (WriteAll \<lparr>rw = shortWriter, start = 0, status = 0, size = 0\<rparr>
        [''hello world!'', ''abc''])) = 8
   \<and> fst (Write \<lparr>rw = shortWriter, start = 0, status = 0, size = 0\<rparr> ''hello world!'')
       = (5, Some (WriteError ''short write''))"
  using Write_counts_reported_bytes
    [of "\<lparr>rw = shortWriter, start = 0, status = 0, size = 0\<rparr>"
        "[''hello world!'', ''abc'']" "''hello world!''"]
  by (simp add: reported_shortWriter) (simp add: rw_Write_def shortWriter_def)

subsection \<open>The middleware\<close>

lemma run_start: "start (run p rl) = start rl"
  by (induction p arbitrary: rl) (simp_all add: Write_simps observer_frame split_def)

lemma observer_after_start: "start (observer_after inner res req wd) = clock wd (ticks wd)"
  by (simp add: observer_after_def run_start)

lemma ServeHTTP_response:
  assumes "Handler inner out t client = Inr rh"
  shows "fst (ServeHTTP rh res req wd) = rw (observer_after inner res req wd)"
  using assms by (auto simp: Handler_Inr ServeHTTP_fst observer_after_def)

lemma ServeHTTP_log:
  assumes "Handler inner out t client = Inr rh" and "logFnForType t = Inr f"
  shows "sink (snd (ServeHTTP rh res req wd)) =
           sink (f out (observer_after inner res req wd) req (wd\<lparr>ticks := Suc (ticks wd)\<rparr>))"
  using assms by (auto simp: Handler_Inr ServeHTTP_sink observer_after_def)

lemma ServeHTTP_statsd_nil:
  assumes "Handler inner out t None = Inr rh"
  shows "statsd (snd (ServeHTTP rh res req wd)) = statsd wd"
  using assms
  by (auto simp: Handler_Inr ServeHTTP_def Now_def Let_def split_def logFn_frame)

lemma ServeHTTP_statsd:
  assumes "Handler inner out t (Some c) = Inr rh"
  shows "statsd (snd (ServeHTTP rh res req wd)) =
     (statsd wd)(c := statsd wd c @
        [Incr ''http.response''
           [''status:'' @ Itoa (status (observer_after inner res req wd)),
            ''method:'' @ Method req] 1,
         Gauge ''http.size'' (float64 (of_int (sint (size (observer_after inner res req wd)))))
           [''status:'' @ Itoa (status (observer_after inner res req wd)),
            ''method:'' @ Method req] 1,
         Timing ''http.response''
           (Sub (clock wd (ticks wd + (if usesResponseTime t then 2 else 1)))
                (clock wd (ticks wd)))
           [''status:'' @ Itoa (status (observer_after inner res req wd)),
            ''method:'' @ Method req] 1])"
proof -
  from assms obtain f where f: "logFnForType t = Inr f"
    and rh: "rh = \<lparr>h = inner, formatType = 0, writer = out, logFn = f, stats = Some c\<rparr>"
    by (auto simp: Handler_Inr)
  show ?thesis
    unfolding rh ServeHTTP_def observer_after_def
    by (simp add: Now_def Let_def split_def client_call_simps logFn_frame [OF f] run_start
        fun_eq_iff)
qed

text \<open>
  C9. With a statsd client configured, one request makes exactly three calls on that client,
  in this order and each once: \<open>Incr "http.response"\<close>, \<open>Gauge "http.size"\<close> with the
  recorded size converted to float64, and \<open>Timing "http.response"\<close> with the time elapsed
  since the observer's start; all three carry the tags \<open>status:<recorded status>\<close> and
  \<open>method:<request method>\<close>. No other client is called. The wrapped handler is arbitrary,
  so the response may be of any size, zero bytes included. The conversion to float64 is
  exact for every size up to \<open>2 ^ 53\<close> bytes.
\<close>

theorem metrics_emitted_once:
  assumes "Handler inner out t (Some c) = Inr rh"
  shows "statsd (snd (ServeHTTP rh res req wd)) c =
     statsd wd c @
        [Incr ''http.response''
           [''status:'' @ Itoa (status (observer_after inner res req wd)),
            ''method:'' @ Method req] 1,
         Gauge ''http.size'' (float64 (of_int (sint (size (observer_after inner res req wd)))))
           [''status:'' @ Itoa (status (observer_after inner res req wd)),
            ''method:'' @ Method req] 1,
         Timing ''http.response''
           (Sub (clock wd (ticks wd + (if usesResponseTime t then 2 else 1)))
                (start (observer_after inner res req wd)))
           [''status:'' @ Itoa (status (observer_after inner res req wd)),
            ''method:'' @ Method req] 1]
     \<and> (\<forall>c'. c' \<noteq> c \<longrightarrow> statsd (snd (ServeHTTP rh res req wd)) c' = statsd wd c')
     \<and> (\<bar>sint (size (observer_after inner res req wd))\<bar> \<le> 2 ^ 53 \<longrightarrow>
          float64 (of_int (sint (size (observer_after inner res req wd)))) =
            of_int (sint (size (observer_after inner res req wd))))"
proof -
  have "\<bar>sint (size (observer_after inner res req wd))\<bar> \<le> 2 ^ 53 \<longrightarrow>
      float64 (of_int (sint (size (observer_after inner res req wd)))) =
        of_int (sint (size (observer_after inner res req wd)))"
    by (rule impI) (rule float64_of_int_exact)
  then show ?thesis
    by (simp add: ServeHTTP_statsd [OF assms] observer_after_start)
qed

lemma Itoa_values:
  "Itoa 0 = ''0''" "Itoa 12 = ''12''" "Itoa 200 = ''200''"
  by code_simp+

lemma SplitHostPort_example:
  "SplitHostPort ''127.0.0.1:5000'' = (''127.0.0.1'', ''5000'', None)"
  by code_simp

lemma SplitHostPort_empty:
  "SplitHostPort '''' = ('''', '''', Some (AddrError ''missing port in address'' ''''))"
  by code_simp

lemma SplitHostPort_ok_or_empty:
  "snd (snd (SplitHostPort hostport)) = None \<or> fst (SplitHostPort hostport) = ''''"
  by (simp add: SplitHostPort_def checkBrackets_def addrErr_def Let_def)

lemma SplitHostPort_error_host:
  "snd (snd (SplitHostPort hostport)) \<noteq> None \<Longrightarrow> fst (SplitHostPort hostport) = ''''"
  using SplitHostPort_ok_or_empty [of hostport] by auto

lemma observer_ping:
  "status (observer_after ping bufWriter req0 wd) = 200"
  "size (observer_after ping bufWriter req0 wd) = 12"
  "state (rw (observer_after ping bufWriter req0 wd)) = ''pong pong 12''"
  by (simp_all add: observer_after_def ping_def Write_def rw_Write_def bufWriter_def
      StatusOK_def Let_def split_def)

lemma observer_idle:
  "status (observer_after idle res req wd) = 0"
  "size (observer_after idle res req wd) = 0"
  "rw (observer_after idle res req wd) = res"
  by (simp_all add: observer_after_def idle_def)

lemma req0_simps:
  "Method req0 = ''GET''" "RequestURI req0 = ''/ping''" "Proto req0 = ''HTTP/1.1''"
  "RemoteAddr req0 = ''127.0.0.1:5000''" "User req0 = None"
  "Referer req0 = ''''" "UserAgent req0 = ''''"
  by (simp_all add: req0_def Referer_def UserAgent_def Header_Get_def)

lemma world0_simps:
  "sink world0 = []" "ticks world0 = 0" "statsd world0 c = []"
  "Format_timeFormat world0 t = ''10/Oct/2000:13:55:36 -0700''"
  "clock world0 0 = 1000" "clock world0 (Suc 0) = 1500001000" "clock world0 (Suc (Suc 0)) = 3000001000"
  by (simp_all add: world0_def)

lemma Sub_values:
  "Sub 1500001000 1000 = 1500000000" "Sub 3000001000 1000 = 3000000000"
  by (simp_all add: Sub_def)

lemma elapsed_example:
  "Sprintf_ms (float64 (Seconds 1500000000 / 1000000)) = ''0.000 ms''"
  "FormatFloat_f3 (float64 (Seconds 1500000000 / 1000000)) = ''0.000''"
  "responseTime_spec 1500000000 = ''1500.000 ms''"
  "float64 12 = 12"
  by code_simp+

text \<open>
  C6. For GET /ping over HTTP/1.1 from 127.0.0.1:5000, without user-info and with empty
  referrer and user agent, answered with status 200 and 12 bytes, the Combined log
  function writes to the sink exactly the line
  \<open>127.0.0.1 - - [<timestamp>] "GET /ping HTTP/1.1" 200 12 "" ""\<close> followed by a newline.
\<close>

theorem combined_line_example:
  assumes \<open>Method req = ''GET''\<close> and \<open>RequestURI req = ''/ping''\<close>
    and \<open>Proto req = ''HTTP/1.1''\<close> and \<open>RemoteAddr req = ''127.0.0.1:5000''\<close>
    and \<open>User req = None\<close> and \<open>Referer req = ''''\<close> and \<open>UserAgent req = ''''\<close>
    and \<open>status rl = 200\<close> and \<open>size rl = 12\<close>
  shows \<open>sink (combineLogFn w rl req wd) =
           snd (w (sink wd)
             (''127.0.0.1 - - ['' @ Format_timeFormat wd (start rl)
                @ ''] "GET /ping HTTP/1.1" 200 12 "" ""'' @ [CHR 0x0A]))\<close>
  using assms
  by (simp add: combineLogFn_def Fprintln_simps extractRemoteIP_def extractUsername_def
      SplitHostPort_example Itoa_values)

text \<open>
  C7. For the same request the Tiny log function writes exactly
  \<open>GET /ping 200 12 - <elapsed> ms\<close> and a newline, the fields joined by single spaces,
  where \<open><elapsed>\<close> is the number \<open>parseResponseTime\<close> prints with three decimals.
\<close>

theorem tiny_line_example:
  assumes "Method req = ''GET''" and "RequestURI req = ''/ping''"
    and "status rl = 200" and "size rl = 12"
  shows "sink (tinyLogFn w rl req wd) =
           snd (w (sink wd)
             (''GET /ping 200 12 - ''
                @ FormatFloat_f3 (float64 (Seconds (Sub (clock wd (ticks wd)) (start rl)) / 1000000))
                @ '' ms'' @ [CHR 0x0A]))"
  using assms
  by (simp add: tinyLogFn_def Fprintln_simps parseResponseTime_simps split_def Sprintf_ms_def
      Itoa_values)

theorem combined_line_example_witness:
  \<open>Method req0 = ''GET'' \<and> RequestURI req0 = ''/ping'' \<and> Proto req0 = ''HTTP/1.1''
   \<and> RemoteAddr req0 = ''127.0.0.1:5000'' \<and> User req0 = None
   \<and> Referer req0 = '''' \<and> UserAgent req0 = ''''
   \<and> status (observer_after ping bufWriter req0 world0) = 200
   \<and> size (observer_after ping bufWriter req0 world0) = 12
   \<and> sink (combineLogFn recorder (observer_after ping bufWriter req0 world0) req0 world0) =
       [''127.0.0.1 - - [10/Oct/2000:13:55:36 -0700] "GET /ping HTTP/1.1" 200 12 "" ""''
          @ [CHR 0x0A]]\<close>
  using combined_line_example
    [of req0 "observer_after ping bufWriter req0 world0" recorder world0]
  by (simp add: req0_simps observer_ping world0_simps recorder_def)

theorem tiny_line_example_witness:
  "Method req0 = ''GET'' \<and> RequestURI req0 = ''/ping''
   \<and> status (observer_after ping bufWriter req0 world0) = 200
   \<and> size (observer_after ping bufWriter req0 world0) = 12
   \<and> sink (tinyLogFn recorder (observer_after ping bufWriter req0 world0) req0
         (world0\<lparr>ticks := Suc 0\<rparr>)) =
       [''GET /ping 200 12 - 0.000 ms'' @ [CHR 0x0A]]"
  using tiny_line_example
    [of req0 "observer_after ping bufWriter req0 world0" recorder "world0\<lparr>ticks := Suc 0\<rparr>"]
  by (simp add: req0_simps observer_ping world0_simps recorder_def observer_after_start
      Sub_values elapsed_example)

lemma Handler_examples:
  "Handler inner out TinyLoggerType client =
     Inr \<lparr>h = inner, formatType = 0, writer = out, logFn = tinyLogFn, stats = client\<rparr>"
  "Handler inner out CombineLoggerType client =
     Inr \<lparr>h = inner, formatType = 0, writer = out, logFn = combineLogFn, stats = client\<rparr>"
  by (simp_all add: Handler_def logFnForType_def CombineLoggerType_def CommonLoggerType_def
      DevLoggerType_def ShortLoggerType_def TinyLoggerType_def)

theorem metrics_emitted_once_witness:
  "Handler ping recorder TinyLoggerType (Some 7) =
     Inr \<lparr>h = ping, formatType = 0, writer = recorder, logFn = tinyLogFn, stats = Some 7\<rparr>
   \<and> statsd (snd (ServeHTTP
         \<lparr>h = ping, formatType = 0, writer = recorder, logFn = tinyLogFn, stats = Some 7\<rparr>
         bufWriter req0 world0)) 7 =
       [Incr ''http.response'' [''status:200'', ''method:GET''] 1,
        Gauge ''http.size'' 12 [''status:200'', ''method:GET''] 1,
        Timing ''http.response'' 3000000000 [''status:200'', ''method:GET''] 1]
   \<and> \<bar>sint (size (observer_after ping bufWriter req0 world0))\<bar> \<le> 2 ^ 53"
  using metrics_emitted_once [OF Handler_examples(1) [of ping recorder "Some 7"],
      where res = bufWriter and req = req0 and wd = world0]
  by (simp add: Handler_examples req0_simps observer_ping world0_simps observer_after_start
      Sub_values elapsed_example Itoa_values usesResponseTime_simps)

lemma Fprintln_line:
  assumes "sink wd' = sink wd"
  shows "\<exists>line. sink (Fprintln w s wd') = snd (w (sink wd) (line @ [CHR 0x0A]))"
  unfolding Fprintln_simps assms by (rule exI [of _ s]) (rule refl)

lemma logFn_writes_line:
  assumes "logFnForType t = Inr f"
  shows "\<exists>line. sink (f w rl req wd) = snd (w (sink wd) (line @ [CHR 0x0A]))"
  using assms
proof (cases rule: logFnForType_cases)
  case 1
  show ?thesis unfolding 1 combineLogFn_def by (rule Fprintln_line) simp
next
  case 2
  show ?thesis unfolding 2 commonLogFn_def by (rule Fprintln_line) simp
next
  case 3
  show ?thesis unfolding 3 devLogFn_def split_def Let_def
    by (rule Fprintln_line) (simp add: parseResponseTime_simps)
next
  case 4
  show ?thesis unfolding 4 shortLogFn_def split_def Let_def
    by (rule Fprintln_line) (simp add: parseResponseTime_simps)
next
  case 5
  show ?thesis unfolding 5 tinyLogFn_def split_def Let_def
    by (rule Fprintln_line) (simp add: parseResponseTime_simps)
qed

lemma empty_remote_addr_line:
  \<open>sink (snd (ServeHTTP
      \<lparr>h = ping, formatType = 0, writer = recorder, logFn = combineLogFn, stats = None\<rparr>
      bufWriter (req0\<lparr>RemoteAddr := ''''\<rparr>) world0)) =
    ['' - - [10/Oct/2000:13:55:36 -0700] "GET /ping HTTP/1.1" 200 12 "" ""'' @ [CHR 0x0A]]\<close>
  by (simp add: ServeHTTP_sink combineLogFn_def Fprintln_simps extractRemoteIP_def
      extractUsername_def SplitHostPort_empty Itoa_values req0_def Referer_def UserAgent_def
      Header_Get_def world0_def recorder_def ping_def Write_def rw_Write_def bufWriter_def
      StatusOK_def Let_def split_def)

text \<open>
  C8. When \<open>net.SplitHostPort\<close> rejects the peer address, \<open>extractRemoteIP\<close> returns the
  empty string (it has no error result), and the middleware still writes one
  newline-terminated line to the sink.
\<close>

theorem unparsable_remote_addr:
  assumes "snd (snd (SplitHostPort (RemoteAddr req))) \<noteq> None"
    and "Handler inner out t client = Inr rh"
  shows "extractRemoteIP req = ''''
     \<and> (\<exists>line. sink (snd (ServeHTTP rh res req wd)) = snd (out (sink wd) (line @ [CHR 0x0A])))"
proof -
  from assms(2) obtain f where f: "logFnForType t = Inr f"
    and "rh = \<lparr>h = inner, formatType = 0, writer = out, logFn = f, stats = client\<rparr>"
    by (auto simp: Handler_Inr)
  have "extractRemoteIP req = ''''"
    using SplitHostPort_error_host [OF assms(1)]
    by (simp add: extractRemoteIP_def split_def)
  moreover have "\<exists>line. sink (snd (ServeHTTP rh res req wd)) =
      snd (out (sink wd) (line @ [CHR 0x0A]))"
    using logFn_writes_line [OF f, of out "observer_after inner res req wd" req
        "wd\<lparr>ticks := Suc (ticks wd)\<rparr>"]
    by (simp add: ServeHTTP_log [OF assms(2) f])
  ultimately show ?thesis by simp
qed

theorem unparsable_remote_addr_witness:
  \<open>snd (snd (SplitHostPort (RemoteAddr (req0\<lparr>RemoteAddr := ''''\<rparr>)))) \<noteq> None
   \<and> Handler ping recorder CombineLoggerType None =
     Inr \<lparr>h = ping, formatType = 0, writer = recorder, logFn = combineLogFn, stats = None\<rparr>
   \<and> extractRemoteIP (req0\<lparr>RemoteAddr := ''''\<rparr>) = ''''
   \<and> (\<exists>line. sink (snd (ServeHTTP
          \<lparr>h = ping, formatType = 0, writer = recorder, logFn = combineLogFn, stats = None\<rparr>
          bufWriter (req0\<lparr>RemoteAddr := ''''\<rparr>) world0)) =
        snd (recorder (sink world0) (line @ [CHR 0x0A])))
   \<and> sink (snd (ServeHTTP
          \<lparr>h = ping, formatType = 0, writer = recorder, logFn = combineLogFn, stats = None\<rparr>
          bufWriter (req0\<lparr>RemoteAddr := ''''\<rparr>) world0)) =
       ['' - - [10/Oct/2000:13:55:36 -0700] "GET /ping HTTP/1.1" 200 12 "" ""'' @ [CHR 0x0A]]\<close>
proof -
  have a: "snd (snd (SplitHostPort (RemoteAddr (req0\<lparr>RemoteAddr := ''''\<rparr>)))) \<noteq> None"
    by (simp add: SplitHostPort_empty)
  show ?thesis
    using a unparsable_remote_addr [OF a Handler_examples(2) [of ping recorder None],
        where res = bufWriter and wd = world0]
    by (simp add: Handler_examples empty_remote_addr_line)
qed

text \<open>
  C5. \<open>ServeHTTP\<close> has no error result, and what it returns to its caller does not depend
  on the sink: with any other writer in place of the configured one, and any other sink
  state, the response writer ends in the same state, namely the one the wrapped handler
  left behind, and the statsd clients receive the same calls.
\<close>

theorem sink_failure_not_propagated:
  assumes "Handler inner out t client = Inr rh" and "Handler inner out' t client = Inr rh'"
  shows "fst (ServeHTTP rh' res req (wd\<lparr>sink := s'\<rparr>)) = fst (ServeHTTP rh res req wd)
     \<and> fst (ServeHTTP rh res req wd) = rw (observer_after inner res req wd)
     \<and> statsd (snd (ServeHTTP rh' res req (wd\<lparr>sink := s'\<rparr>))) =
         statsd (snd (ServeHTTP rh res req wd))"
proof -
  have obs: "observer_after inner res req (wd\<lparr>sink := s'\<rparr>) = observer_after inner res req wd"
    by (simp add: observer_after_def)
  have "statsd (snd (ServeHTTP rh' res req (wd\<lparr>sink := s'\<rparr>))) =
      statsd (snd (ServeHTTP rh res req wd))"
  proof (cases client)
    case None
    with assms show ?thesis by (simp add: ServeHTTP_statsd_nil)
  next
    case (Some c)
    with assms show ?thesis by (simp add: ServeHTTP_statsd obs)
  qed
  then show ?thesis
    by (simp add: ServeHTTP_response [OF assms(1)] ServeHTTP_response [OF assms(2)] obs)
qed

theorem sink_failure_not_propagated_witness:
  "Handler ping recorder CombineLoggerType (Some 7) =
     Inr \<lparr>h = ping, formatType = 0, writer = recorder, logFn = combineLogFn, stats = Some 7\<rparr>
   \<and> Handler ping brokenSink CombineLoggerType (Some 7) =
     Inr \<lparr>h = ping, formatType = 0, writer = brokenSink, logFn = combineLogFn, stats = Some 7\<rparr>
   \<and> fst (brokenSink [] ''line'') = (0, Some (WriteError ''closed pipe''))
   \<and> state (fst (ServeHTTP
        \<lparr>h = ping, formatType = 0, writer = brokenSink, logFn = combineLogFn, stats = Some 7\<rparr>
        bufWriter req0 (world0\<lparr>sink := []\<rparr>))) = ''pong pong 12''
   \<and> fst (ServeHTTP
        \<lparr>h = ping, formatType = 0, writer = brokenSink, logFn = combineLogFn, stats = Some 7\<rparr>
        bufWriter req0 (world0\<lparr>sink := []\<rparr>)) =
       fst (ServeHTTP
        \<lparr>h = ping, formatType = 0, writer = recorder, logFn = combineLogFn, stats = Some 7\<rparr>
        bufWriter req0 world0)"
  using sink_failure_not_propagated
    [OF Handler_examples(2) [of ping recorder "Some 7"]
        Handler_examples(2) [of ping brokenSink "Some 7"],
      where res = bufWriter and req = req0 and wd = world0 and s' = "[]"]
  by (simp add: Handler_examples observer_ping brokenSink_def)

lemma rw_Flush_observer: "rw (Flush rl) = rw_Flush (rw rl)"
  by (simp add: observer_rw rw_Flush_def)

lemma run_silent:
  assumes "silent p"
  shows "status (run p rl) = status rl"
    and "size (run p rl) = size rl"
    and "rw (run p rl) = (rw_Flush ^^ flushes p) (rw rl)"
  using assms
proof (induction p arbitrary: rl)
  case Return
  {
    case 1 show ?case by simp
  next
    case 2 show ?case by simp
  next
    case 3 show ?case by simp
  }
next
  case (CallWrite bytes k)
  {
    case 1 then show ?case by simp
  next
    case 2 then show ?case by simp
  next
    case 3 then show ?case by simp
  }
next
  case (CallWriteHeader code p)
  {
    case 1 then show ?case by simp
  next
    case 2 then show ?case by simp
  next
    case 3 then show ?case by simp
  }
next
  case (CallFlush p)
  {
    case 1
    then have "silent p" by simp
    from CallFlush.IH(1) [OF this, of "Flush rl"] show ?case
      by (simp add: observer_frame)
  next
    case 2
    then have "silent p" by simp
    from CallFlush.IH(2) [OF this, of "Flush rl"] show ?case
      by (simp add: observer_frame)
  next
    case 3
    then have "silent p" by simp
    from CallFlush.IH(3) [OF this, of "Flush rl"] show ?case
      by (simp add: rw_Flush_observer funpow_swap1)
  }
qed

lemma observer_silent:
  assumes "silent (inner req)"
  shows "status (observer_after inner res req wd) = 0"
    and "size (observer_after inner res req wd) = 0"
    and "rw (observer_after inner res req wd) = (rw_Flush ^^ flushes (inner req)) res"
  by (simp_all add: observer_after_def run_silent [OF assms])

lemma float64_0: "float64 0 = 0"
  by (simp add: float64_def)

text \<open>
  C10. When the wrapped handler returns without calling \<open>Write\<close> or \<open>WriteHeader\<close> (it may
  have called \<open>Flush\<close> any number of times), the observer still holds status 0 and size 0, and
  the response writer has only been flushed, as often as the handler flushed; every format
  prints \<open>0\<close> in its status and its size field, and the statsd calls carry the tag
  \<open>status:0\<close> and the gauge value 0. The status is not defaulted to 200.
\<close>

theorem no_calls_status_zero:
  assumes "Handler inner out t client = Inr rh" and "silent (inner req)"
  shows "status (observer_after inner res req wd) = 0
     \<and> size (observer_after inner res req wd) = 0
     \<and> fst (ServeHTTP rh res req wd) = (rw_Flush ^^ flushes (inner req)) res
     \<and> (t = CombineLoggerType \<longrightarrow>
          sink (snd (ServeHTTP rh res req wd)) =
            snd (out (sink wd) (Join [
              extractRemoteIP req, ''-'', extractUsername req,
              ''['' @ Format_timeFormat wd (clock wd (ticks wd)) @ '']'',
              [CHR 0x22] @ Method req, RequestURI req, Proto req @ [CHR 0x22],
              ''0'', ''0'',
              [CHR 0x22] @ Referer req @ [CHR 0x22],
              [CHR 0x22] @ UserAgent req @ [CHR 0x22]] '' '' @ [CHR 0x0A])))
     \<and> (t = CommonLoggerType \<longrightarrow>
          sink (snd (ServeHTTP rh res req wd)) =
            snd (out (sink wd) (Join [
              extractRemoteIP req, ''-'', extractUsername req,
              ''['' @ Format_timeFormat wd (clock wd (ticks wd)) @ '']'',
              [CHR 0x22] @ Method req, RequestURI req, Proto req @ [CHR 0x22],
              ''0'', ''0''] '' '' @ [CHR 0x0A])))
     \<and> (t = DevLoggerType \<longrightarrow>
          sink (snd (ServeHTTP rh res req wd)) =
            snd (out (sink wd) (Join [
              Method req, RequestURI req, ''0'',
              Sprintf_ms (float64 (Seconds (Sub (clock wd (Suc (ticks wd))) (clock wd (ticks wd)))
                / 1000000)),
              ''-'', ''0''] '' '' @ [CHR 0x0A])))
     \<and> (t = ShortLoggerType \<longrightarrow>
          sink (snd (ServeHTTP rh res req wd)) =
            snd (out (sink wd) (Join [
              extractRemoteIP req, extractUsername req, Method req, RequestURI req, Proto req,
              ''0'', ''0'', ''-'',
              Sprintf_ms (float64 (Seconds (Sub (clock wd (Suc (ticks wd))) (clock wd (ticks wd)))
                / 1000000))] '' '' @ [CHR 0x0A])))
     \<and> (t = TinyLoggerType \<longrightarrow>
          sink (snd (ServeHTTP rh res req wd)) =
            snd (out (sink wd) (Join [
              Method req, RequestURI req, ''0'', ''0'', ''-'',
              Sprintf_ms (float64 (Seconds (Sub (clock wd (Suc (ticks wd))) (clock wd (ticks wd)))
                / 1000000))] '' '' @ [CHR 0x0A])))
     \<and> (\<forall>c. client = Some c \<longrightarrow>
          statsd (snd (ServeHTTP rh res req wd)) c =
            statsd wd c @
              [Incr ''http.response'' [''status:0'', ''method:'' @ Method req] 1,
               Gauge ''http.size'' 0 [''status:0'', ''method:'' @ Method req] 1,
               Timing ''http.response''
                 (Sub (clock wd (ticks wd + (if usesResponseTime t then 2 else 1)))
                      (clock wd (ticks wd)))
                 [''status:0'', ''method:'' @ Method req] 1])"
proof -
  note obs = observer_silent [where inner = inner and req = req, OF assms(2)]
    observer_after_start [of inner res req wd]
  from assms(1) obtain f where f: "logFnForType t = Inr f"
    and "rh = \<lparr>h = inner, formatType = 0, writer = out, logFn = f, stats = client\<rparr>"
    by (auto simp: Handler_Inr)
  note log = ServeHTTP_log [OF assms(1) f, of res req wd]
  have lines: ?thesis if "\<forall>c. client = Some c \<longrightarrow>
          statsd (snd (ServeHTTP rh res req wd)) c =
            statsd wd c @
              [Incr ''http.response'' [''status:0'', ''method:'' @ Method req] 1,
               Gauge ''http.size'' 0 [''status:0'', ''method:'' @ Method req] 1,
               Timing ''http.response''
                 (Sub (clock wd (ticks wd + (if usesResponseTime t then 2 else 1)))
                      (clock wd (ticks wd)))
                 [''status:0'', ''method:'' @ Method req] 1]"
    using f that
    by (cases rule: logFnForType_cases)
      (simp_all add: obs ServeHTTP_response [OF assms(1)] log Type_distinct
        Type_distinct [symmetric] combineLogFn_def commonLogFn_def devLogFn_def shortLogFn_def
        tinyLogFn_def Fprintln_simps parseResponseTime_simps split_def Itoa_values)
  show ?thesis
  proof (rule lines, intro allI impI)
    fix c assume "client = Some c"
    with assms(1) have "Handler inner out t (Some c) = Inr rh" by simp
    from ServeHTTP_statsd [OF this, of res req wd] show
      "statsd (snd (ServeHTTP rh res req wd)) c =
            statsd wd c @
              [Incr ''http.response'' [''status:0'', ''method:'' @ Method req] 1,
               Gauge ''http.size'' 0 [''status:0'', ''method:'' @ Method req] 1,
               Timing ''http.response''
                 (Sub (clock wd (ticks wd + (if usesResponseTime t then 2 else 1)))
                      (clock wd (ticks wd)))
                 [''status:0'', ''method:'' @ Method req] 1]"
      by (simp add: obs Itoa_values float64_0)
  qed
qed

theorem no_calls_status_zero_witness:
  "Handler flushOnly recorder TinyLoggerType (Some 7) =
     Inr \<lparr>h = flushOnly, formatType = 0, writer = recorder, logFn = tinyLogFn, stats = Some 7\<rparr>
   \<and> silent (flushOnly req0)
   \<and> state (fst (ServeHTTP
        \<lparr>h = flushOnly, formatType = 0, writer = recorder, logFn = tinyLogFn, stats = Some 7\<rparr>
        flushCounter req0 world0)) = Suc 0
   \<and> sink (snd (ServeHTTP
        \<lparr>h = flushOnly, formatType = 0, writer = recorder, logFn = tinyLogFn, stats = Some 7\<rparr>
        flushCounter req0 world0)) = [''GET /ping 0 0 - 0.000 ms'' @ [CHR 0x0A]]
   \<and> statsd (snd (ServeHTTP
        \<lparr>h = flushOnly, formatType = 0, writer = recorder, logFn = tinyLogFn, stats = Some 7\<rparr>
        flushCounter req0 world0)) 7 =
       [Incr ''http.response'' [''status:0'', ''method:GET''] 1,
        Gauge ''http.size'' 0 [''status:0'', ''method:GET''] 1,
        Timing ''http.response'' 3000000000 [''status:0'', ''method:GET''] 1]"
proof -
  have a: "silent (flushOnly req0)"
    by (simp add: flushOnly_def)
  show ?thesis
    using a no_calls_status_zero [OF Handler_examples(1) [of flushOnly recorder "Some 7"] a,
        where res = flushCounter and wd = world0]
    by (simp add: Handler_examples req0_simps world0_simps Sub_values elapsed_example
        usesResponseTime_simps Type_distinct Type_distinct [symmetric] recorder_def
        flushOnly_def rw_Flush_def flushCounter_def)
qed

text \<open>
  C1. The response-time field is not the elapsed duration in milliseconds. With 1.5 seconds
  between the observer's start and the reading of the clock in \<open>parseResponseTime\<close>, the
  code prints \<open>0.000 ms\<close> (it divides the seconds by \<open>1e6\<close>), where the elapsed duration
  rendered in milliseconds with three decimals is \<open>1500.000 ms\<close>.
\<close>

theorem parseResponseTime_not_milliseconds:
  "Sub (clock (world0\<lparr>ticks := Suc 0\<rparr>) (ticks (world0\<lparr>ticks := Suc 0\<rparr>))) 1000 = 1500000000
   \<and> fst (parseResponseTime 1000 (world0\<lparr>ticks := Suc 0\<rparr>)) = ''0.000 ms''
   \<and> responseTime_spec 1500000000 = ''1500.000 ms''"
  by (simp add: parseResponseTime_simps world0_simps Sub_values elapsed_example)

end
